theory Spec2Isabelle
  imports Main
begin

section \<open>Type expressions of the declaration files\<close>

text \<open>
  The repository consists of two TypeScript declaration documents: the common Token
  document model (\<^verbatim>\<open>token.mjs.d.ts\<close>) and the client-side Card document. Neither holds
  a function to translate: the program is its declarations. They are therefore embedded
  as data, one constructor per syntactic form the two documents use, so that the
  declared types, signatures and modifiers can be computed with.

  A numeric literal type keeps the text of its numeral. A name keeps its qualification
  as written (\<^verbatim>\<open>documents.BaseUser\<close>, \<^verbatim>\<open>Cards.PassOptions\<close>).
\<close>

datatype lit = LStr string | LNum string | LBool bool

datatype ty =
    TName string
  | TGeneric string "ty list"
  | TUnion "ty list"
  | TArray ty
  | TIndexed ty ty
  | TTypeof string
  | TKeyof ty
  | TLit lit
  | TFunction "(string \<times> bool \<times> ty) list" ty
  | TObject "(string \<times> bool \<times> ty) list"
  | TString | TNumber | TBoolean | TObjectKw | TVoid | TUndefined | TNull

text \<open>A parameter or property: its name, whether it is marked optional (\<^verbatim>\<open>?\<close>), its type.\<close>

type_synonym param = "string \<times> bool \<times> ty"

section \<open>Class members and declarations\<close>

datatype member_kind = Constructor | Method | Getter | Property

text \<open>
  A class member: the lines of its documentation comment, its modifiers, its name, its
  parameters, its declared (return) type, and the text of its body block.
  \<open>m_body\<close> is \<open>None\<close> for a member whose declaration ends at its signature.
  A destructured parameter keeps its pattern as its name. The comments inside a
  parameter's type and the comment of a class as a whole belong to no member and are
  left out.
\<close>

record member =
  m_doc :: "string list"
  m_kind :: member_kind
  m_static :: bool
  m_override :: bool
  m_name :: string
  m_params :: "param list"
  m_type :: "ty option"
  m_body :: "string option"

datatype import_clause =
    DefaultImport string
  | NamedImports "(bool \<times> string) list"
  | NamespaceImport string

text \<open>
  What a class extends: a type (\<^verbatim>\<open>extends Document<...>\<close>) or the application
  of a mixin to a base class (\<^verbatim>\<open>extends ClientDocumentMixin(foundry.documents.BaseCard)\<close>).
\<close>

datatype heritage = ExtendsType ty | ExtendsMixin string string

text \<open>
  The declarations. \<open>Import t c f\<close> carries the \<^verbatim>\<open>import type\<close> flag, \<open>ClassDecl\<close> and
  \<open>Namespace\<close> carry the \<^verbatim>\<open>declare\<close> modifier.
\<close>

datatype decl =
    Import bool import_clause string
  | TypeAlias string ty
  | Interface string "ty list" "param list"
  | ClassDecl bool string heritage "member list"
  | Namespace bool string "decl list"
  | Global "decl list"
  | ExportDefault string

section \<open>The Token document: \<^verbatim>\<open>token.mjs.d.ts\<close>\<close>

definition token_imports :: "decl list" where
  "token_imports =
    [Import True (NamedImports [(False, ''ConfiguredDocumentClass'')]) ''../../../types/helperTypes.js'',
     Import True (DefaultImport ''Document'') ''../abstract/document.mjs'',
     Import False (NamedImports [(True, ''DocumentMetadata'')]) ''../abstract/document.mjs'',
     Import True (NamespaceImport ''CONST'') ''../constants.mjs'',
     Import True (NamedImports [(False, ''LightData''), (False, ''TextureData'')]) ''../data/data.mjs'',
     Import True (NamespaceImport ''fields'') ''../data/fields.mjs'',
     Import True (NamespaceImport ''documents'') ''./module.mjs'']"

definition token_globals :: "decl list" where
  "token_globals =
    [TypeAlias ''TokenSightData'' (TIndexed (TName ''BaseToken.Properties'') (TLit (LStr ''sight''))),
     TypeAlias ''TokenDetectionMode''
       (TIndexed (TIndexed (TName ''BaseToken.Properties'') (TLit (LStr ''detectionModes''))) TNumber),
     TypeAlias ''TokenData'' (TName ''BaseToken.Properties''),
     TypeAlias ''TokenBarData'' (TIndexed (TName ''BaseToken.Properties'') (TLit (LStr ''bar1'')))]"

definition BaseToken_extends :: heritage where
  "BaseToken_extends =
    ExtendsType (TGeneric ''Document''
      [TName ''BaseToken.SchemaField'',
       TName ''BaseToken.Metadata'',
       TUnion [TGeneric ''InstanceType''
                 [TGeneric ''ConfiguredDocumentClass'' [TTypeof ''documents.BaseScene'']],
               TNull]])"

definition BaseToken_members :: "member list" where
  "BaseToken_members =
    [\<lparr>m_doc = [], m_kind = Constructor, m_static = False, m_override = False,
      m_name = ''constructor'',
      m_params = [(''data'', False, TName ''BaseToken.ConstructorData''),
                  (''context'', True, TName ''DocumentConstructionContext'')],
      m_type = None, m_body = None\<rparr>,
     \<lparr>m_doc = [], m_kind = Property, m_static = True, m_override = True,
      m_name = ''metadata'', m_params = [],
      m_type = Some (TGeneric ''Readonly'' [TName ''BaseToken.Metadata'']), m_body = None\<rparr>,
     \<lparr>m_doc = [], m_kind = Method, m_static = True, m_override = True,
      m_name = ''defineSchema'', m_params = [],
      m_type = Some (TName ''BaseToken.Schema''), m_body = None\<rparr>,
     \<lparr>m_doc = [''Validate the structure of the detection modes array'',
               ''@param modes - Configured detection modes'',
               ''@throws An error if the array is invalid''],
      m_kind = Method, m_static = True, m_override = False,
      m_name = ''#validateDetectionModes'',
      m_params = [(''modes'', False, TArray (TName ''TokenDetectionMode''))],
      m_type = Some TVoid, m_body = None\<rparr>,
     \<lparr>m_doc = [''The default icon used for newly created Token documents'',
               ''@defaultValue `CONST.DEFAULT_TOKEN`''],
      m_kind = Property, m_static = True, m_override = False,
      m_name = ''DEFAULT_ICON'', m_params = [],
      m_type = Some TString, m_body = None\<rparr>,
     \<lparr>m_doc = [''Is a user able to update an existing Token?'', ''@internal''],
      m_kind = Method, m_static = True, m_override = False,
      m_name = ''#canUpdate'',
      m_params = [(''user'', False, TName ''documents.BaseUser''),
                  (''doc'', False, TName ''BaseToken''),
                  (''data'', False, TName ''BaseToken.UpdateData'')],
      m_type = Some TBoolean, m_body = None\<rparr>,
     \<lparr>m_doc = [], m_kind = Method, m_static = False, m_override = True,
      m_name = ''testUserPermission'',
      m_params = [(''user'', False, TName ''documents.BaseUser''),
                  (''permission'', False,
                     TUnion [TKeyof (TTypeof ''CONST.DOCUMENT_OWNERSHIP_LEVELS''),
                             TName ''CONST.DOCUMENT_OWNERSHIP_LEVELS'']),
                  (''{ exact }'', True, TObject [(''exact'', True, TBoolean)])],
      m_type = Some TBoolean, m_body = None\<rparr>,
     \<lparr>m_doc = [], m_kind = Method, m_static = True, m_override = True,
      m_name = ''cleanData'',
      m_params = [(''source'', True, TUnion [TObjectKw, TUndefined]),
                  (''options'', True, TUnion [TName ''fields.DataField.CleanOptions'', TUndefined])],
      m_type = Some TObjectKw, m_body = None\<rparr>,
     \<lparr>m_doc = [], m_kind = Method, m_static = True, m_override = True,
      m_name = ''migrateData'',
      m_params = [(''source'', False, TObjectKw)],
      m_type = Some TObjectKw, m_body = None\<rparr>,
     \<lparr>m_doc = [], m_kind = Method, m_static = True, m_override = True,
      m_name = ''shimData'',
      m_params = [(''data'', False, TObjectKw),
                  (''{ embedded }'', True, TObject [(''embedded'', True, TBoolean)])],
      m_type = Some TObjectKw, m_body = None\<rparr>]"

text \<open>
  The namespace \<^verbatim>\<open>BaseToken\<close>: the metadata, the four data types derived from the schema,
  and the schema itself. The documentation comments of the schema's fields hold a
  description and a default value each; they are left out of the model.
\<close>

definition Metadata :: ty where
  "Metadata =
    TGeneric ''Merge''
      [TName ''DocumentMetadata'',
       TObject
         [(''name'', False, TLit (LStr ''Token'')),
          (''collection'', False, TLit (LStr ''tokens'')),
          (''label'', False, TLit (LStr ''DOCUMENT.Token'')),
          (''labelPlural'', False, TLit (LStr ''DOCUMENT.Tokens'')),
          (''isEmbedded'', False, TLit (LBool True)),
          (''permissions'', False,
             TObject
               [(''create'', False, TLit (LStr ''TOKEN_CREATE'')),
                (''update'', False,
                   TFunction [(''user'', False, TName ''documents.BaseUser''),
                              (''doc'', False, TName ''Document.Any''),
                              (''data'', False, TName ''UpdateData'')] TBoolean),
                (''delete'', False, TLit (LStr ''TOKEN_DELETE''))])]]"

definition sight_fields :: "param list" where
  "sight_fields =
    [(''enabled'', False,
        TGeneric ''fields.BooleanField'' [TObject [(''initial'', False, TFunction [] TBoolean)]]),
     (''range'', False,
        TGeneric ''fields.NumberField''
          [TObject [(''required'', False, TLit (LBool True)),
                    (''min'', False, TLit (LNum ''0'')),
                    (''step'', False, TLit (LNum ''0.01''))]]),
     (''angle'', False,
        TGeneric ''fields.AngleField''
          [TObject [(''initial'', False, TLit (LNum ''360'')),
                    (''base'', False, TLit (LNum ''360''))]]),
     (''visionMode'', False,
        TGeneric ''fields.StringField''
          [TObject [(''required'', False, TLit (LBool True)),
                    (''blank'', False, TLit (LBool False)),
                    (''initial'', False, TLit (LStr ''basic'')),
                    (''label'', False, TLit (LStr ''TOKEN.VisionMode'')),
                    (''hint'', False, TLit (LStr ''TOKEN.VisionModeHint''))]]),
     (''color'', False,
        TGeneric ''fields.ColorField''
          [TObject [(''label'', False, TLit (LStr ''TOKEN.VisionColor''))]]),
     (''attenuation'', False,
        TGeneric ''fields.AlphaField''
          [TObject [(''initial'', False, TLit (LNum ''0.1'')),
                    (''label'', False, TLit (LStr ''TOKEN.VisionAttenuation'')),
                    (''hint'', False, TLit (LStr ''TOKEN.VisionAttenuationHint''))]]),
     (''brightness'', False,
        TGeneric ''fields.NumberField''
          [TObject [(''required'', False, TLit (LBool True)),
                    (''nullable'', False, TLit (LBool False)),
                    (''initial'', False, TLit (LNum ''0'')),
                    (''min'', False, TLit (LNum ''-1'')),
                    (''max'', False, TLit (LNum ''1'')),
                    (''label'', False, TLit (LStr ''TOKEN.VisionBrightness'')),
                    (''hint'', False, TLit (LStr ''TOKEN.VisionBrightnessHint''))]]),
     (''saturation'', False,
        TGeneric ''fields.NumberField''
          [TObject [(''required'', False, TLit (LBool True)),
                    (''nullable'', False, TLit (LBool False)),
                    (''initial'', False, TLit (LNum ''0'')),
                    (''min'', False, TLit (LNum ''-1'')),
                    (''max'', False, TLit (LNum ''1'')),
                    (''label'', False, TLit (LStr ''TOKEN.VisionSaturation'')),
                    (''hint'', False, TLit (LStr ''TOKEN.VisionSaturationHint''))]]),
     (''contrast'', False,
        TGeneric ''fields.NumberField''
          [TObject [(''required'', False, TLit (LBool True)),
                    (''nullable'', False, TLit (LBool False)),
                    (''initial'', False, TLit (LNum ''0'')),
                    (''min'', False, TLit (LNum ''-1'')),
                    (''max'', False, TLit (LNum ''1'')),
                    (''label'', False, TLit (LStr ''TOKEN.VisionContrast'')),
                    (''hint'', False, TLit (LStr ''TOKEN.VisionContrastHint''))]])]"

definition detection_mode_fields :: "param list" where
  "detection_mode_fields =
    [(''id'', False, TName ''fields.StringField''),
     (''enabled'', False,
        TGeneric ''fields.BooleanField'' [TObject [(''initial'', False, TLit (LBool True))]]),
     (''range'', False,
        TGeneric ''fields.NumberField''
          [TObject [(''required'', False, TLit (LBool True)),
                    (''min'', False, TLit (LNum ''0'')),
                    (''step'', False, TLit (LNum ''0.01'')),
                    (''initial'', False, TLit (LNum ''0''))]])]"

definition Schema :: "param list" where
  "Schema =
    [(''_id'', False, TName ''fields.DocumentIdField''),
     (''name'', False,
        TGeneric ''fields.StringField''
          [TObject [(''required'', False, TLit (LBool True)),
                    (''blank'', False, TLit (LBool True))]]),
     (''displayName'', False,
        TGeneric ''fields.NumberField''
          [TObject [(''required'', False, TLit (LBool True)),
                    (''initial'', False, TTypeof ''CONST.TOKEN_DISPLAY_MODES.NONE''),
                    (''choices'', False, TArray (TName ''CONST.TOKEN_DISPLAY_MODES'')),
                    (''validationError'', False,
                       TLit (LStr ''must be a value in CONST.TOKEN_DISPLAY_MODES''))],
           TUnion [TName ''CONST.TOKEN_DISPLAY_MODES'', TNull, TUndefined],
           TName ''CONST.TOKEN_DISPLAY_MODES'',
           TName ''CONST.TOKEN_DISPLAY_MODES'']),
     (''actorId'', False,
        TGeneric ''fields.ForeignDocumentField''
          [TTypeof ''documents.BaseActor'',
           TObject [(''idOnly'', False, TLit (LBool True))]]),
     (''actorLink'', False, TName ''fields.BooleanField''),
     (''actorData'', False,
        TGeneric ''fields.ObjectField''
          [TObject [],
           TGeneric ''Exclude''
             [TGeneric ''documents.BaseActor.ConstructorData'' [TName ''documents.BaseActor.TypeNames''],
              TUnion [TLit (LStr ''prototypeToken''), TLit (LStr ''token'')]],
           TGeneric ''Exclude''
             [TGeneric ''documents.BaseActor.Properties'' [TName ''documents.BaseActor.TypeNames''],
              TUnion [TLit (LStr ''prototypeToken''), TLit (LStr ''token'')]],
           TGeneric ''Exclude''
             [TGeneric ''documents.BaseActor.Source'' [TName ''documents.BaseActor.TypeNames''],
              TUnion [TLit (LStr ''prototypeToken''), TLit (LStr ''token'')]]]),
     (''texture'', False,
        TGeneric ''TextureData''
          [TObject [],
           TObject [(''initial'', False, TFunction [] (TTypeof ''BaseToken.DEFAULT_ICON'')),
                    (''wildcard'', False, TLit (LBool True))]]),
     (''width'', False,
        TGeneric ''fields.NumberField''
          [TObject [(''positive'', False, TLit (LBool True)),
                    (''initial'', False, TLit (LNum ''1'')),
                    (''label'', False, TLit (LStr ''Width''))]]),
     (''height'', False,
        TGeneric ''fields.NumberField''
          [TObject [(''positive'', False, TLit (LBool True)),
                    (''initial'', False, TLit (LNum ''1'')),
                    (''label'', False, TLit (LStr ''Height''))]]),
     (''x'', False,
        TGeneric ''fields.NumberField''
          [TObject [(''required'', False, TLit (LBool True)),
                    (''integer'', False, TLit (LBool True)),
                    (''nullable'', False, TLit (LBool False)),
                    (''initial'', False, TLit (LNum ''0'')),
                    (''label'', False, TLit (LStr ''XCoord''))]]),
     (''y'', False,
        TGeneric ''fields.NumberField''
          [TObject [(''required'', False, TLit (LBool True)),
                    (''integer'', False, TLit (LBool True)),
                    (''nullable'', False, TLit (LBool False)),
                    (''initial'', False, TLit (LNum ''0'')),
                    (''label'', False, TLit (LStr ''YCoord''))]]),
     (''elevation'', False,
        TGeneric ''fields.NumberField''
          [TObject [(''required'', False, TLit (LBool True)),
                    (''nullable'', False, TLit (LBool False)),
                    (''initial'', False, TLit (LNum ''0''))]]),
     (''lockRotation'', False, TName ''fields.BooleanField''),
     (''rotation'', False, TName ''fields.AngleField''),
     (''effects'', False, TGeneric ''fields.ArrayField'' [TName ''fields.StringField'']),
     (''overlayEffect'', False, TName ''fields.StringField''),
     (''alpha'', False, TName ''fields.AlphaField''),
     (''hidden'', False, TName ''fields.BooleanField''),
     (''disposition'', False,
        TGeneric ''fields.NumberField''
          [TObject [(''required'', False, TLit (LBool True)),
                    (''choices'', False, TArray (TName ''CONST.TOKEN_DISPOSITIONS'')),
                    (''initial'', False, TTypeof ''CONST.TOKEN_DISPOSITIONS.HOSTILE''),
                    (''validationError'', False,
                       TLit (LStr ''must be a value in CONST.TOKEN_DISPOSITIONS''))],
           TUnion [TName ''CONST.TOKEN_DISPOSITIONS'', TNull, TUndefined],
           TName ''CONST.TOKEN_DISPOSITIONS'',
           TName ''CONST.TOKEN_DISPOSITIONS'']),
     (''displayBars'', False,
        TGeneric ''fields.NumberField''
          [TObject [(''required'', False, TLit (LBool True)),
                    (''choices'', False, TArray (TName ''CONST.TOKEN_DISPLAY_MODES'')),
                    (''initial'', False, TTypeof ''CONST.TOKEN_DISPLAY_MODES.NONE''),
                    (''validationError'', False,
                       TLit (LStr ''must be a value in CONST.TOKEN_DISPLAY_MODES''))],
           TUnion [TName ''CONST.TOKEN_DISPLAY_MODES'', TNull, TUndefined],
           TName ''CONST.TOKEN_DISPLAY_MODES'',
           TName ''CONST.TOKEN_DISPLAY_MODES'']),
     (''bar1'', False,
        TGeneric ''fields.SchemaField''
          [TObject
            [(''attribute'', False,
             TGeneric ''fields.StringField''
               [TObject [(''required'', False, TLit (LBool True)),
                         (''nullable'', False, TLit (LBool True)),
                         (''blank'', False, TLit (LBool False)),
                         (''initial'', False, TFunction [] (TUnion [TString, TNull]))]])]]),
     (''bar2'', False,
        TGeneric ''fields.SchemaField''
          [TObject
            [(''attribute'', False,
             TGeneric ''fields.StringField''
               [TObject [(''required'', False, TLit (LBool True)),
                         (''nullable'', False, TLit (LBool True)),
                         (''blank'', False, TLit (LBool False)),
                         (''initial'', False, TFunction [] (TUnion [TString, TNull]))]])]]),
     (''light'', False, TGeneric ''fields.EmbeddedDataField'' [TName ''LightData'']),
     (''sight'', False, TGeneric ''fields.SchemaField'' [TObject sight_fields]),
     (''detectionModes'', False,
        TGeneric ''fields.ArrayField''
          [TGeneric ''fields.SchemaField'' [TObject detection_mode_fields],
           TObject [(''validate'', False, TFunction [] TVoid)]]),
     (''flags'', False,
        TGeneric ''fields.ObjectField.FlagsField'' [TLit (LStr ''Token'')])]"

definition BaseToken_namespace :: "decl list" where
  "BaseToken_namespace =
    [TypeAlias ''Metadata'' Metadata,
     TypeAlias ''SchemaField'' (TGeneric ''fields.SchemaField'' [TName ''Schema'']),
     TypeAlias ''ConstructorData'' (TName ''UpdateData''),
     TypeAlias ''UpdateData''
       (TGeneric ''fields.SchemaField.InnerAssignmentType'' [TName ''Schema'']),
     TypeAlias ''Properties''
       (TGeneric ''fields.SchemaField.InnerInitializedType'' [TName ''Schema'']),
     TypeAlias ''Source''
       (TGeneric ''fields.SchemaField.InnerPersistedType'' [TName ''Schema'']),
     Interface ''Schema'' [TName ''DataSchema''] Schema]"

definition token_module :: "decl list" where
  "token_module =
    token_imports @
    [Global token_globals,
     Interface ''BaseToken'' [TName ''BaseToken.Properties''] [],
     ClassDecl True ''BaseToken'' BaseToken_extends BaseToken_members,
     ExportDefault ''BaseToken'',
     Namespace True ''BaseToken'' BaseToken_namespace]"

section \<open>The Card document\<close>

text \<open>
  The second document declares the client-side class \<^verbatim>\<open>Card\<close> inside
  \<^verbatim>\<open>declare global\<close>: eight accessors and seven methods.
\<close>

definition card_imports :: "decl list" where
  "card_imports =
    [Import True (NamedImports [(False, ''ConfiguredDocumentClassForName'')])
       ''../../../../types/helperTypes.d.mts'',
     Import True (NamedImports [(False, ''DeepPartial'')]) ''../../../../types/utils.d.mts'']"

definition Card_members :: "member list" where
  "Card_members =
    [\<lparr>m_doc = [''The current card face''],
      m_kind = Getter, m_static = False, m_override = False,
      m_name = ''currentFace'', m_params = [],
      m_type = Some (TUnion [TName ''CardFaceData'', TNull]), m_body = None\<rparr>,
     \<lparr>m_doc = [''The image of the currently displayed card face or back''],
      m_kind = Getter, m_static = False, m_override = False,
      m_name = ''img'', m_params = [],
      m_type = Some (TString), m_body = None\<rparr>,
     \<lparr>m_doc = [''The name of the current card face, or the name of the card itself''],
      m_kind = Getter, m_static = False, m_override = False,
      m_name = ''name'', m_params = [],
      m_type = Some (TString), m_body = None\<rparr>,
     \<lparr>m_doc = [''A reference to the source Cards document which defines this Card.''],
      m_kind = Getter, m_static = False, m_override = False,
      m_name = ''source'', m_params = [],
      m_type = Some (TUnion [TGeneric ''InstanceType'' [TGeneric ''ConfiguredDocumentClassForName'' [TLit (LStr ''Cards'')]],
                            TUndefined, TNull]), m_body = None\<rparr>,
     \<lparr>m_doc = [''A convenience property for whether or not the Card is within its source Cards stack. Cards in decks are always'', ''considered home.''],
      m_kind = Getter, m_static = False, m_override = False,
      m_name = ''isHome'', m_params = [],
      m_type = Some (TBoolean), m_body = None\<rparr>,
     \<lparr>m_doc = [''Whether or not to display the face of this card?''],
      m_kind = Getter, m_static = False, m_override = False,
      m_name = ''showFace'', m_params = [],
      m_type = Some (TBoolean), m_body = None\<rparr>,
     \<lparr>m_doc = [''Does this Card have a next face available to flip to?''],
      m_kind = Getter, m_static = False, m_override = False,
      m_name = ''hasNextFace'', m_params = [],
      m_type = Some (TBoolean), m_body = None\<rparr>,
     \<lparr>m_doc = [''Does this Card have a previous face available to flip to?''],
      m_kind = Getter, m_static = False, m_override = False,
      m_name = ''hasPreviousFace'', m_params = [],
      m_type = Some (TBoolean), m_body = None\<rparr>,
     \<lparr>m_doc = [],
      m_kind = Method, m_static = False, m_override = True,
      m_name = ''prepareDerivedData'',
      m_params = [],
      m_type = Some (TVoid), m_body = None\<rparr>,
     \<lparr>m_doc = [''Flip this card to some other face. A specific face may be requested, otherwise:'',
               ''If the card currently displays a face the card is flipped to the back.'',
               ''If the card currently displays the back it is flipped to the first face.'',
               ''@param face - A specific face to flip the card to'',
               ''@returns A reference to this card after the flip operation is complete''],
      m_kind = Method, m_static = False, m_override = False,
      m_name = ''flip'',
      m_params = [(''face'', True, TUnion [TNumber, TNull, TUndefined])],
      m_type = Some (TGeneric ''Promise''
                     [TUnion [TGeneric ''InstanceType'' [TGeneric ''ConfiguredDocumentClassForName'' [TLit (LStr ''Card'')]],
                              TUndefined]]), m_body = None\<rparr>,
     \<lparr>m_doc = [''Pass this Card to some other Cards document.'',
               ''@param to      - A new Cards document this card should be passed to'',
               ''@param options - (default: `{}`)'',
               ''@returns A reference to this card after the it has been passed to another parent document''],
      m_kind = Method, m_static = False, m_override = False,
      m_name = ''pass'',
      m_params = [(''to'', False,
                     TGeneric ''InstanceType'' [TGeneric ''ConfiguredDocumentClassForName'' [TLit (LStr ''Cards'')]]),
                  (''options'', True, TUnion [TName ''Cards.PassOptions'', TUndefined])],
      m_type = Some (TGeneric ''Promise''
                     [TUnion [TGeneric ''InstanceType'' [TGeneric ''ConfiguredDocumentClassForName'' [TLit (LStr ''Card'')]],
                              TUndefined]]), m_body = None\<rparr>,
     \<lparr>m_doc = [''Play a specific card to some other Cards document.'',
               ''This method is currently a more semantic alias for Card#pass.'',
               ''@see Card#pass''],
      m_kind = Method, m_static = False, m_override = False,
      m_name = ''play'',
      m_params = [(''to'', False,
                     TGeneric ''InstanceType'' [TGeneric ''ConfiguredDocumentClassForName'' [TLit (LStr ''Cards'')]]),
                  (''options'', True, TUnion [TName ''Cards.PassOptions'', TUndefined])],
      m_type = Some (TGeneric ''Promise''
                     [TUnion [TGeneric ''InstanceType'' [TGeneric ''ConfiguredDocumentClassForName'' [TLit (LStr ''Card'')]],
                              TUndefined]]), m_body = None\<rparr>,
     \<lparr>m_doc = [''Discard a specific card to some other Cards document.'',
               ''This method is currently a more semantic alias for Card#pass.'',
               ''@see Card#pass''],
      m_kind = Method, m_static = False, m_override = False,
      m_name = ''discard'',
      m_params = [(''to'', False,
                     TGeneric ''InstanceType'' [TGeneric ''ConfiguredDocumentClassForName'' [TLit (LStr ''Cards'')]]),
                  (''options'', True, TUnion [TName ''Cards.PassOptions'', TUndefined])],
      m_type = Some (TGeneric ''Promise''
                     [TUnion [TGeneric ''InstanceType'' [TGeneric ''ConfiguredDocumentClassForName'' [TLit (LStr ''Card'')]],
                              TUndefined]]), m_body = None\<rparr>,
     \<lparr>m_doc = [''Recall this Card to its original Cards parent.'',
               ''@param options - Options which modify the reset operation'',
               ''                 (default: `{}`)'',
               ''@returns A reference to the reset card belonging to its original parent''],
      m_kind = Method, m_static = False, m_override = False,
      m_name = ''recall'',
      m_params = [(''options'', True, TUnion [TName ''Cards.ResetOptions'', TUndefined])],
      m_type = Some (TGeneric ''Promise''
                     [TGeneric ''InstanceType'' [TGeneric ''ConfiguredDocumentClassForName'' [TLit (LStr ''Card'')]]]), m_body = None\<rparr>,
     \<lparr>m_doc = [''Create a chat message which displays this Card.'',
               ''@param messageData - Additional data which becomes part of the created ChatMessageData'',
               ''                     (default: `{}`)'',
               ''@param options     - Options which modify the message creation operation'',
               ''                     (default: `{}`)'',
               ''@returns The created chat message''],
      m_kind = Method, m_static = False, m_override = False,
      m_name = ''toMessage'',
      m_params = [(''messageData'', True,
                     TGeneric ''DeepPartial'' [TName ''foundry.documents.BaseChatMessage.ConstructorData'']),
                  (''options'', True, TUnion [TName ''DocumentModificationContext'', TUndefined])],
      m_type = Some (TGeneric ''Promise''
                     [TUnion [TGeneric ''InstanceType'' [TGeneric ''ConfiguredDocumentClassForName'' [TLit (LStr ''ChatMessage'')]],
                              TUndefined]]), m_body = None\<rparr>]"

definition card_module :: "decl list" where
  "card_module =
    card_imports @
    [Global [ClassDecl False ''Card''
               (ExtendsMixin ''ClientDocumentMixin'' ''foundry.documents.BaseCard'')
               Card_members]]"

definition repository :: "decl list list" where
  "repository = [token_module, card_module]"

section \<open>Reading the declarations\<close>

text \<open>The classes a declaration declares, also inside a namespace or the global scope.\<close>

fun classes_of :: "decl \<Rightarrow> (string \<times> member list) list" where
  "classes_of (ClassDecl d n h ms) = [(n, ms)]"
| "classes_of (Namespace d n ds) = concat (map classes_of ds)"
| "classes_of (Global ds) = concat (map classes_of ds)"
| "classes_of (Import t c f) = []"
| "classes_of (TypeAlias n t) = []"
| "classes_of (Interface n es fs) = []"
| "classes_of (ExportDefault n) = []"

definition declared_classes :: "(string \<times> member list) list" where
  "declared_classes = concat (map classes_of (concat repository))"

definition members_of :: "string \<Rightarrow> member list" where
  "members_of c = concat (map snd (filter (\<lambda>d. fst d = c) declared_classes))"

definition member_named :: "string \<Rightarrow> string \<Rightarrow> member list" where
  "member_named c n = filter (\<lambda>m. m_name m = n) (members_of c)"

text \<open>A member is implemented when its declaration carries a body.\<close>

definition implemented :: "member \<Rightarrow> bool" where
  "implemented m = (m_body m \<noteq> None)"

definition implemented_members :: "(string \<times> string) list" where
  "implemented_members =
    concat (map (\<lambda>(c, ms). map (\<lambda>m. (c, m_name m)) (filter implemented ms)) declared_classes)"

text \<open>The signature of a member: its parameters and its declared type.\<close>

definition signature_of :: "member \<Rightarrow> param list \<times> ty option" where
  "signature_of m = (m_params m, m_type m)"

text \<open>
  A declaration is ambient when it exists for the type checker only: a type-only
  import, a type alias, an interface, a class or namespace that is marked
  \<^verbatim>\<open>declare\<close> or stands inside an ambient scope and none of whose members carries a
  body, and the export of a declared name. The flag tells whether the enclosing scope is
  ambient already.
\<close>

fun type_only :: "bool \<Rightarrow> import_clause \<Rightarrow> bool" where
  "type_only t (NamedImports xs) = (t \<or> (xs \<noteq> [] \<and> list_all fst xs))"
| "type_only t (DefaultImport n) = t"
| "type_only t (NamespaceImport n) = t"

fun ambient :: "bool \<Rightarrow> decl \<Rightarrow> bool" where
  "ambient a (Import t c f) = type_only t c"
| "ambient a (TypeAlias n t) = True"
| "ambient a (Interface n es fs) = True"
| "ambient a (ClassDecl d n h ms) = ((a \<or> d) \<and> list_all (\<lambda>m. m_body m = None) ms)"
| "ambient a (Namespace d n ds) = ((a \<or> d) \<and> list_all (ambient True) ds)"
| "ambient a (Global ds) = list_all (ambient True) ds"
| "ambient a (ExportDefault n) = True"

text \<open>The names a module exports, and the names it adds to the global scope.\<close>

fun default_exports :: "decl list \<Rightarrow> string list" where
  "default_exports [] = []"
| "default_exports (ExportDefault n # ds) = n # default_exports ds"
| "default_exports (d # ds) = default_exports ds"

fun declared_name :: "decl \<Rightarrow> string list" where
  "declared_name (TypeAlias n t) = [n]"
| "declared_name (Interface n es fs) = [n]"
| "declared_name (ClassDecl d n h ms) = [n]"
| "declared_name (Namespace d n ds) = [n]"
| "declared_name (Import t c f) = []"
| "declared_name (Global ds) = []"
| "declared_name (ExportDefault n) = []"

fun global_names :: "decl list \<Rightarrow> string list" where
  "global_names [] = []"
| "global_names (Global gs # ds) = concat (map declared_name gs) @ global_names ds"
| "global_names (d # ds) = global_names ds"

section \<open>Type aliases of the namespace\<close>

fun aliases_in :: "decl list \<Rightarrow> (string \<times> ty) list" where
  "aliases_in [] = []"
| "aliases_in (TypeAlias n t # ds) = (n, t) # aliases_in ds"
| "aliases_in (d # ds) = aliases_in ds"

definition BaseToken_aliases :: "(string \<times> ty) list" where
  "BaseToken_aliases = aliases_in BaseToken_namespace"

text \<open>
  Outside the namespace its types are written qualified (\<^verbatim>\<open>BaseToken.UpdateData\<close>),
  inside it unqualified.
\<close>

definition local_name :: "string \<Rightarrow> string" where
  "local_name n = (if take 10 n = ''BaseToken.'' then drop 10 n else n)"

text \<open>
  \<open>expand env k t\<close> replaces the aliases of \<open>env\<close> in \<open>t\<close> by their definitions, following
  at most \<open>k\<close> aliases in a row.
\<close>

fun expand :: "(string \<times> ty) list \<Rightarrow> nat \<Rightarrow> ty \<Rightarrow> ty" where
  "expand env k (TName n) =
     (case k of
        0 \<Rightarrow> TName n
      | Suc j \<Rightarrow> (case map_of env (local_name n) of
                    None \<Rightarrow> TName n
                  | Some t \<Rightarrow> expand env j t))"
| "expand env k (TGeneric n ts) = TGeneric n (map (expand env k) ts)"
| "expand env k (TUnion ts) = TUnion (map (expand env k) ts)"
| "expand env k (TArray t) = TArray (expand env k t)"
| "expand env k (TIndexed t i) = TIndexed (expand env k t) (expand env k i)"
| "expand env k (TKeyof t) = TKeyof (expand env k t)"
| "expand env k (TFunction ps t) =
     TFunction (map (\<lambda>p. (fst p, fst (snd p), expand env k (snd (snd p)))) ps) (expand env k t)"
| "expand env k (TObject ps) =
     TObject (map (\<lambda>p. (fst p, fst (snd p), expand env k (snd (snd p)))) ps)"
| "expand env k t = t"

text \<open>
  The names of a type that \<open>env\<close> still defines: none are left once the type is
  expanded all the way.
\<close>

fun alias_names :: "(string \<times> ty) list \<Rightarrow> ty \<Rightarrow> string list" where
  "alias_names env (TName n) = (if map_of env (local_name n) = None then [] else [n])"
| "alias_names env (TGeneric n ts) = concat (map (alias_names env) ts)"
| "alias_names env (TUnion ts) = concat (map (alias_names env) ts)"
| "alias_names env (TArray t) = alias_names env t"
| "alias_names env (TIndexed t i) = alias_names env t @ alias_names env i"
| "alias_names env (TKeyof t) = alias_names env t"
| "alias_names env (TFunction ps t) =
     concat (map (\<lambda>p. alias_names env (snd (snd p))) ps) @ alias_names env t"
| "alias_names env (TObject ps) = concat (map (\<lambda>p. alias_names env (snd (snd p))) ps)"
| "alias_names env t = []"

text \<open>
  What the types built from \<^verbatim>\<open>fields.SchemaField.InnerAssignmentType\<close> and the other
  imported names mean is fixed outside this repository: \<open>T\<close> stands for it. A value is
  accepted at a type of the namespace when \<open>T\<close> accepts it at the expanded type. An alias
  is followed at most once on a path (a cyclic alias is not a type), so the number of
  aliases bounds the depth.
\<close>

definition accepts :: "(ty \<Rightarrow> 'v \<Rightarrow> bool) \<Rightarrow> ty \<Rightarrow> 'v \<Rightarrow> bool" where
  "accepts T t v = T (expand BaseToken_aliases (length BaseToken_aliases) t) v"

section \<open>Promises, schema options and references to other documents\<close>

text \<open>The alternatives a member's promise resolves to; \<open>None\<close> when it returns no promise.\<close>

fun alternatives :: "ty \<Rightarrow> ty list" where
  "alternatives (TUnion ts) = ts"
| "alternatives t = [t]"

fun promised :: "ty option \<Rightarrow> ty list option" where
  "promised (Some (TGeneric n [t])) = (if n = ''Promise'' then Some (alternatives t) else None)"
| "promised t = None"

definition resolves_to :: "string \<Rightarrow> string \<Rightarrow> ty list option list" where
  "resolves_to c n = map (\<lambda>m. promised (m_type m)) (member_named c n)"

text \<open>
  The options of a schema field are the properties of the object type that is its first
  type argument; the options of an array field follow its element type.
\<close>

fun field_options :: "ty \<Rightarrow> param list" where
  "field_options (TGeneric n (TObject ps # ts)) = ps"
| "field_options t = []"

fun array_options :: "ty \<Rightarrow> param list" where
  "array_options (TGeneric n [e, TObject ps]) = ps"
| "array_options t = []"

fun sub_fields :: "ty \<Rightarrow> param list" where
  "sub_fields (TGeneric n [TObject ps]) = (if n = ''fields.SchemaField'' then ps else [])"
| "sub_fields t = []"

definition field_type :: "param list \<Rightarrow> string \<Rightarrow> ty option" where
  "field_type fs f = map_option snd (map_of fs f)"

definition option_of :: "param list \<Rightarrow> string \<Rightarrow> string \<Rightarrow> ty option" where
  "option_of fs f k =
     (case field_type fs f of
        None \<Rightarrow> None
      | Some t \<Rightarrow> field_type (field_options t) k)"

text \<open>The document class a foreign-key field points to.\<close>

fun foreign_key :: "ty \<Rightarrow> string option" where
  "foreign_key (TGeneric n (TTypeof d # ts)) =
     (if n = ''fields.ForeignDocumentField'' then Some d else None)"
| "foreign_key t = None"

text \<open>
  The document classes a type refers to, through
  \<^verbatim>\<open>InstanceType<ConfiguredDocumentClass<typeof D>>\<close> or
  \<^verbatim>\<open>InstanceType<ConfiguredDocumentClassForName<"D">>\<close>.
\<close>

fun document_of :: "ty \<Rightarrow> string list" where
  "document_of (TGeneric i [TGeneric c [TTypeof d]]) =
     (if i = ''InstanceType'' \<and> c = ''ConfiguredDocumentClass'' then [d] else [])"
| "document_of (TGeneric i [TGeneric c [TLit (LStr d)]]) =
     (if i = ''InstanceType'' \<and> c = ''ConfiguredDocumentClassForName'' then [d] else [])"
| "document_of t = []"

definition documents_of :: "ty \<Rightarrow> string list" where
  "documents_of t = concat (map document_of (alternatives t))"

text \<open>The parent document type of a class: the third type argument of \<^verbatim>\<open>Document\<close>.\<close>

fun parent_type :: "heritage \<Rightarrow> ty option" where
  "parent_type (ExtendsType (TGeneric n [s, m, p])) = (if n = ''Document'' then Some p else None)"
| "parent_type h = None"

text \<open>The lines of a documentation comment that carry the \<^verbatim>\<open>@throws\<close> tag.\<close>

definition throws_tags :: "member \<Rightarrow> string list" where
  "throws_tags m = filter (\<lambda>l. take 7 l = ''@throws'') (m_doc m)"

definition documented_throws :: "(string \<times> string \<times> string list) list" where
  "documented_throws =
    concat (map (\<lambda>(c, ms). map (\<lambda>m. (c, m_name m, throws_tags m))
                              (filter (\<lambda>m. throws_tags m \<noteq> []) ms)) declared_classes)"

text \<open>The bodies found in the repository under a member name, whatever the class.\<close>

definition implementations_of :: "string \<Rightarrow> (string \<times> string) list" where
  "implementations_of n = filter (\<lambda>i. snd i = n) implemented_members"

text \<open>What a class declares under a name: kind, static modifier, signature and body.\<close>

definition declared_as ::
  "string \<Rightarrow> string \<Rightarrow> (member_kind \<times> bool \<times> (param list \<times> ty option) \<times> string option) list" where
  "declared_as c n =
     map (\<lambda>m. (m_kind m, m_static m, signature_of m, m_body m)) (member_named c n)"

definition param_type :: "string \<Rightarrow> string \<Rightarrow> string \<Rightarrow> ty list" where
  "param_type c n p =
     concat (map (\<lambda>m. map (\<lambda>q. snd (snd q)) (filter (\<lambda>q. fst q = p) (m_params m)))
                 (member_named c n))"

definition may_be_undefined :: "string \<Rightarrow> string \<Rightarrow> bool list" where
  "may_be_undefined c n =
     map (\<lambda>r. case r of None \<Rightarrow> False | Some ts \<Rightarrow> TUndefined \<in> set ts) (resolves_to c n)"

text \<open>The properties merged into the metadata, and the element type of an array field.\<close>

fun merged :: "ty \<Rightarrow> param list" where
  "merged (TGeneric n [b, TObject ps]) = (if n = ''Merge'' then ps else [])"
| "merged t = []"

fun element_type :: "ty \<Rightarrow> ty option" where
  "element_type (TGeneric n (e # ts)) = (if n = ''fields.ArrayField'' then Some e else None)"
| "element_type t = None"

definition schema_sub :: "string \<Rightarrow> param list" where
  "schema_sub f = (case field_type Schema f of None \<Rightarrow> [] | Some t \<Rightarrow> sub_fields t)"

definition element_fields :: "string \<Rightarrow> param list" where
  "element_fields f =
     (case field_type Schema f of
        None \<Rightarrow> []
      | Some t \<Rightarrow> (case element_type t of None \<Rightarrow> [] | Some e \<Rightarrow> sub_fields e))"

definition foreign_keys :: "(string \<times> string option) list" where
  "foreign_keys =
     map (\<lambda>f. (fst f, foreign_key (snd (snd f))))
         (filter (\<lambda>f. foreign_key (snd (snd f)) \<noteq> None) Schema)"

section \<open>The type surface\<close>

text \<open>
  C8. \<^verbatim>\<open>BaseToken.ConstructorData\<close> is defined to be \<^verbatim>\<open>UpdateData\<close>: the constructor
  takes its data at the first type, \<^verbatim>\<open>#canUpdate\<close> at the second, both expand to the same
  type, in which no alias is left, and so whatever the imported types mean, a value is
  acceptable constructor data exactly when it is acceptable update data.
\<close>

theorem ConstructorData_is_UpdateData:
  "map_of BaseToken_aliases ''ConstructorData'' = Some (TName ''UpdateData'')
   \<and> param_type ''BaseToken'' ''constructor'' ''data'' = [TName ''BaseToken.ConstructorData'']
   \<and> param_type ''BaseToken'' ''#canUpdate'' ''data'' = [TName ''BaseToken.UpdateData'']
   \<and> expand BaseToken_aliases (length BaseToken_aliases) (TName ''BaseToken.ConstructorData'')
       = expand BaseToken_aliases (length BaseToken_aliases) (TName ''BaseToken.UpdateData'')
   \<and> alias_names BaseToken_aliases
        (expand BaseToken_aliases (length BaseToken_aliases) (TName ''BaseToken.ConstructorData''))
       = []
   \<and> (accepts T (TName ''BaseToken.ConstructorData'') v
        \<longleftrightarrow> accepts T (TName ''BaseToken.UpdateData'') v)"
proof -
  have a: "map_of BaseToken_aliases ''ConstructorData'' = Some (TName ''UpdateData'')"
    by code_simp
  have c: "param_type ''BaseToken'' ''constructor'' ''data'' = [TName ''BaseToken.ConstructorData'']"
    by code_simp
  have u: "param_type ''BaseToken'' ''#canUpdate'' ''data'' = [TName ''BaseToken.UpdateData'']"
    by code_simp
  have e: "expand BaseToken_aliases (length BaseToken_aliases) (TName ''BaseToken.ConstructorData'')
       = expand BaseToken_aliases (length BaseToken_aliases) (TName ''BaseToken.UpdateData'')"
    by code_simp
  have n: "alias_names BaseToken_aliases
        (expand BaseToken_aliases (length BaseToken_aliases) (TName ''BaseToken.ConstructorData''))
       = []"
    by code_simp
  have "accepts T (TName ''BaseToken.ConstructorData'') v
        \<longleftrightarrow> accepts T (TName ''BaseToken.UpdateData'') v"
    unfolding accepts_def e ..
  with a c u e n show ?thesis by blast
qed

text \<open>
  C9. \<^verbatim>\<open>Card.play\<close> and \<^verbatim>\<open>Card.discard\<close> are declared with the signature of
  \<^verbatim>\<open>Card.pass\<close>: a Cards document \<^verbatim>\<open>to\<close>, optional \<^verbatim>\<open>Cards.PassOptions\<close>, and a promise
  of a Card or undefined.
\<close>

theorem play_discard_signature_of_pass:
  "map signature_of (member_named ''Card'' ''play'') = map signature_of (member_named ''Card'' ''pass'')
   \<and> map signature_of (member_named ''Card'' ''discard'')
       = map signature_of (member_named ''Card'' ''pass'')
   \<and> map signature_of (member_named ''Card'' ''pass'')
       = [([(''to'', False, TGeneric ''InstanceType'' [TGeneric ''ConfiguredDocumentClassForName'' [TLit (LStr ''Cards'')]]),
            (''options'', True, TUnion [TName ''Cards.PassOptions'', TUndefined])],
           Some (TGeneric ''Promise'' [TUnion [TGeneric ''InstanceType'' [TGeneric ''ConfiguredDocumentClassForName'' [TLit (LStr ''Card'')]], TUndefined]]))]
   \<and> map m_kind (concat (map (member_named ''Card'') [''pass'', ''play'', ''discard'']))
       = [Method, Method, Method]"
  by code_simp

text \<open>
  C10. The promise of \<^verbatim>\<open>Card.recall\<close> resolves to a Card and to nothing else, while the
  promises of \<^verbatim>\<open>flip\<close>, \<^verbatim>\<open>pass\<close>, \<^verbatim>\<open>play\<close>, \<^verbatim>\<open>discard\<close> and \<^verbatim>\<open>toMessage\<close> each
  have \<^verbatim>\<open>undefined\<close> among their alternatives.
\<close>

theorem recall_resolves_to_Card:
  "resolves_to ''Card'' ''recall'' = [Some [TGeneric ''InstanceType'' [TGeneric ''ConfiguredDocumentClassForName'' [TLit (LStr ''Card'')]]]]
   \<and> may_be_undefined ''Card'' ''recall'' = [False]
   \<and> map (may_be_undefined ''Card'') [''flip'', ''pass'', ''play'', ''discard'', ''toMessage'']
       = [[True], [True], [True], [True], [True]]"
  by code_simp

section \<open>The record shapes\<close>

text \<open>
  C4. The declarations describe two record shapes, the Token (class \<^verbatim>\<open>BaseToken\<close>, whose
  metadata names it \<^verbatim>\<open>Token\<close>) and the Card. The Token schema has the position \<^verbatim>\<open>x\<close>,
  \<^verbatim>\<open>y\<close>, the rotation, the sight parameters, the attribute bindings of the two
  resource bars and the list of detection modes among its fields. The Token's
  \<^verbatim>\<open>actorId\<close> is a foreign key to an Actor, the Card's \<^verbatim>\<open>source\<close> refers to a Cards
  stack, and the parent document of a Token is a Scene.
\<close>

theorem Token_and_Card_shapes:
  "map fst declared_classes = [''BaseToken'', ''Card'']
   \<and> field_type (merged Metadata) ''name'' = Some (TLit (LStr ''Token''))
   \<and> map fst Schema =
       [''_id'', ''name'', ''displayName'', ''actorId'', ''actorLink'', ''actorData'', ''texture'',
        ''width'', ''height'', ''x'', ''y'', ''elevation'', ''lockRotation'', ''rotation'',
        ''effects'', ''overlayEffect'', ''alpha'', ''hidden'', ''disposition'', ''displayBars'',
        ''bar1'', ''bar2'', ''light'', ''sight'', ''detectionModes'', ''flags'']
   \<and> field_type Schema ''rotation'' = Some (TName ''fields.AngleField'')
   \<and> map fst (schema_sub ''sight'') =
       [''enabled'', ''range'', ''angle'', ''visionMode'', ''color'', ''attenuation'',
        ''brightness'', ''saturation'', ''contrast'']
   \<and> map fst (schema_sub ''bar1'') = [''attribute'']
   \<and> map fst (schema_sub ''bar2'') = [''attribute'']
   \<and> map fst (element_fields ''detectionModes'') = [''id'', ''enabled'', ''range'']
   \<and> foreign_keys = [(''actorId'', Some ''documents.BaseActor'')]
   \<and> map (\<lambda>m. map_option documents_of (m_type m)) (member_named ''Card'' ''source'')
       = [Some [''Cards'']]
   \<and> map_option documents_of (parent_type BaseToken_extends) = Some [''documents.BaseScene'']"
  by code_simp

section \<open>Declarations without implementation\<close>

text \<open>
  C1. Every declaration of the two documents is ambient: a type-only import, a type
  alias, an interface of typed fields, or a declared class or namespace whose members
  end at their signatures. None of the ten members of \<^verbatim>\<open>BaseToken\<close> and none of the
  fifteen members of \<^verbatim>\<open>Card\<close> carries a body, so the repository holds no executable
  statement in which a parser, a state machine, a protocol or any other algorithm
  could be written.
\<close>

theorem no_executable_bodies:
  "list_all (ambient False) (concat repository)
   \<and> map (\<lambda>d. (fst d, length (snd d))) declared_classes = [(''BaseToken'', 10), (''Card'', 15)]
   \<and> filter implemented (members_of ''BaseToken'') = []
   \<and> filter implemented (members_of ''Card'') = []
   \<and> implemented_members = []"
  by code_simp

text \<open>
  C2. \<^verbatim>\<open>BaseToken.#validateDetectionModes\<close>, documented as validating the structure of
  the detection modes array, and \<^verbatim>\<open>BaseToken.#canUpdate\<close>, documented as deciding whether
  a user is able to update an existing Token, are each declared once, as a static method
  signature without a body, and no class of the repository implements a member of
  either name.
\<close>

theorem validation_declared_only:
  "declared_as ''BaseToken'' ''#validateDetectionModes''
     = [(Method, True, ([(''modes'', False, TArray (TName ''TokenDetectionMode''))], Some TVoid), None)]
   \<and> map (\<lambda>m. take 1 (m_doc m)) (member_named ''BaseToken'' ''#validateDetectionModes'')
       = [[''Validate the structure of the detection modes array'']]
   \<and> declared_as ''BaseToken'' ''#canUpdate''
       = [(Method, True,
           ([(''user'', False, TName ''documents.BaseUser''),
             (''doc'', False, TName ''BaseToken''),
             (''data'', False, TName ''BaseToken.UpdateData'')], Some TBoolean), None)]
   \<and> map (\<lambda>m. take 1 (m_doc m)) (member_named ''BaseToken'' ''#canUpdate'')
       = [[''Is a user able to update an existing Token?'']]
   \<and> implementations_of ''#validateDetectionModes'' = []
   \<and> implementations_of ''#canUpdate'' = []"
  by code_simp

text \<open>
  C3. \<^verbatim>\<open>Card.flip\<close>, \<^verbatim>\<open>Card.pass\<close>, \<^verbatim>\<open>Card.recall\<close>, \<^verbatim>\<open>BaseToken.cleanData\<close> and
  \<^verbatim>\<open>BaseToken.migrateData\<close> are each declared once, as a method, with no body, and no
  class of the repository implements a member of any of these names.
\<close>

theorem operations_are_signatures_only:
  "map (\<lambda>n. map (\<lambda>d. (fst d, snd (snd (snd d)))) (declared_as ''Card'' n))
       [''flip'', ''pass'', ''recall'']
     = [[(Method, None)], [(Method, None)], [(Method, None)]]
   \<and> map (\<lambda>n. map (\<lambda>d. (fst d, snd (snd (snd d)))) (declared_as ''BaseToken'' n))
         [''cleanData'', ''migrateData'']
       = [[(Method, None)], [(Method, None)]]
   \<and> concat (map implementations_of [''flip'', ''pass'', ''recall'', ''cleanData'', ''migrateData''])
       = []"
  by code_simp

section \<open>Errors and invariants\<close>

text \<open>
  C5. A thrown error is mentioned in one place, the \<^verbatim>\<open>@throws\<close> tag of the
  documentation comment of \<^verbatim>\<open>#validateDetectionModes\<close> (an error if the array is
  invalid). That method has no body, and neither has any other member, so no statement
  of the repository raises, propagates or recovers from an error.
\<close>

theorem errors_only_documented:
  "documented_throws
     = [(''BaseToken'', ''#validateDetectionModes'', [''@throws An error if the array is invalid''])]
   \<and> map m_body (member_named ''BaseToken'' ''#validateDetectionModes'') = [None]
   \<and> map (\<lambda>d. filter implemented (snd d)) declared_classes = [[], []]"
  by code_simp

text \<open>
  C6. The Token schema declares its invariants as options of the field types: a minimum
  of 0 for the sight range, the bounds -1 and 1 for brightness, saturation and contrast,
  positive width and height, the choices of \<^verbatim>\<open>displayName\<close>, \<^verbatim>\<open>disposition\<close> and
  \<^verbatim>\<open>displayBars\<close>, and a \<^verbatim>\<open>validate\<close> hook of type \<^verbatim>\<open>() => void\<close> on the detection
  modes. These are types: the hook has no function behind it, the method that validates
  the detection modes has no body, and no member of the repository is implemented, so
  nothing here checks any of them.
\<close>

theorem schema_invariants_declared_not_checked:
  "option_of (schema_sub ''sight'') ''range'' ''min'' = Some (TLit (LNum ''0''))
   \<and> map (\<lambda>f. (option_of (schema_sub ''sight'') f ''min'', option_of (schema_sub ''sight'') f ''max''))
         [''brightness'', ''saturation'', ''contrast'']
       = [(Some (TLit (LNum ''-1'')), Some (TLit (LNum ''1''))),
          (Some (TLit (LNum ''-1'')), Some (TLit (LNum ''1''))),
          (Some (TLit (LNum ''-1'')), Some (TLit (LNum ''1'')))]
   \<and> map (\<lambda>f. option_of Schema f ''positive'') [''width'', ''height'']
       = [Some (TLit (LBool True)), Some (TLit (LBool True))]
   \<and> map (\<lambda>f. option_of Schema f ''choices'') [''displayName'', ''disposition'', ''displayBars'']
       = [Some (TArray (TName ''CONST.TOKEN_DISPLAY_MODES'')),
          Some (TArray (TName ''CONST.TOKEN_DISPOSITIONS'')),
          Some (TArray (TName ''CONST.TOKEN_DISPLAY_MODES''))]
   \<and> map_option array_options (field_type Schema ''detectionModes'')
       = Some [(''validate'', False, TFunction [] TVoid)]
   \<and> map m_body (member_named ''BaseToken'' ''#validateDetectionModes'') = [None]
   \<and> concat (map (\<lambda>d. filter implemented (snd d)) declared_classes) = []"
  by code_simp

section \<open>The external interface\<close>

text \<open>
  C7. What the repository offers to other code is a set of names: the Token document
  exports the class \<^verbatim>\<open>BaseToken\<close> by default and adds four type aliases to the global
  scope, the Card document adds the class \<^verbatim>\<open>Card\<close>. The exported name is the declared
  class. Every declaration behind these names is ambient and every member is a
  signature, so the names exist for the type checker only and nothing that reads or
  writes a format or a command line stands behind them.
\<close>

theorem interface_is_type_surface:
  "map default_exports repository = [[''BaseToken''], []]
   \<and> map global_names repository
       = [[''TokenSightData'', ''TokenDetectionMode'', ''TokenData'', ''TokenBarData''], [''Card'']]
   \<and> map fst declared_classes = [''BaseToken'', ''Card'']
   \<and> map (list_all (ambient False)) repository = [True, True]
   \<and> map (\<lambda>d. (fst d, map m_name (filter implemented (snd d)))) declared_classes
       = [(''BaseToken'', []), (''Card'', [])]"
  by code_simp

end
